theory Spec2Isabelle
  imports Main "HOL-Library.Word"
begin

section \<open>Shared types\<close>

text \<open>
  \<^verbatim>\<open>common.Address\<close> is a 20-byte array, a byte is a \<^verbatim>\<open>uint8\<close>, gas is a
  \<^verbatim>\<open>uint64\<close> (\<^verbatim>\<open>storetypes.Gas\<close>, \<^verbatim>\<open>Contract.Gas\<close>): subtraction on it wraps.
  A \<^verbatim>\<open>*big.Int\<close> is an unbounded integer.
\<close>

type_synonym address = "160 word"
type_synonym byte = "8 word"
type_synonym gas = "64 word"

section \<open>x/evm/keeper/precompiles.go\<close>

text \<open>
  The keeper holds the pre-registered mapping \<^verbatim>\<open>k.precompiles\<close>; no other field of
  the keeper is read by \<^verbatim>\<open>Precompiles\<close>. A Go \<^verbatim>\<open>panic\<close> is the \<open>Inl\<close> branch
  of the result, carrying the address that \<^verbatim>\<open>fmt.Sprintf\<close> prints.
\<close>

record 'p Keeper =
  precompiles :: "address \<rightharpoonup> 'p"

datatype keeper_panic = PrecompileNotInitialized address

text \<open>
  The body of \<^verbatim>\<open>for _, address := range activePrecompiles\<close>: the first address
  with no registered implementation panics, every other one is stored in the map
  under construction.
\<close>

fun Precompiles_loop ::
  "'p Keeper \<Rightarrow> address list \<Rightarrow> (address \<rightharpoonup> 'p) \<Rightarrow> keeper_panic + (address \<rightharpoonup> 'p)" where
  "Precompiles_loop k [] activePrecompileMap = Inr activePrecompileMap"
| "Precompiles_loop k (address # rest) activePrecompileMap =
     (case precompiles k address of
        None \<Rightarrow> Inl (PrecompileNotInitialized address)
      | Some precompile \<Rightarrow>
          Precompiles_loop k rest (activePrecompileMap(address \<mapsto> precompile)))"

definition Precompiles ::
  "'p Keeper \<Rightarrow> address list \<Rightarrow> keeper_panic + (address \<rightharpoonup> 'p)" where
  "Precompiles k activePrecompiles = Precompiles_loop k activePrecompiles Map.empty"

section \<open>app/ante/evm/07\_can\_transfer.go\<close>

text \<open>
  Of \<^verbatim>\<open>core.Message\<close> the function reads the fee cap, the value and the sender.
  \<^verbatim>\<open>baseFee\<close> is a pointer: \<open>None\<close> is \<^verbatim>\<open>nil\<close>, which \<^verbatim>\<open>Cmp\<close> dereferences.
  The disposable state database and EVM built from the context, the keeper, the
  chain configuration and the parameters are only used to reach
  \<^verbatim>\<open>evm.Context.CanTransfer\<close>; the model takes that predicate, already applied to the
  state database, as \<open>canTransfer\<close>.
  The first condition, \<^verbatim>\<open>isLondon && msg.GasFeeCap().Cmp(baseFee) < 0\<close>, reads the base
  fee only where \<^verbatim>\<open>isLondon\<close> holds: the model branches on \<^verbatim>\<open>isLondon\<close> first and
  runs the check of the value, the second \<^verbatim>\<open>if\<close> of the source, in both branches.
\<close>

record Message =
  GasFeeCap :: int
  Value :: int
  From :: address

datatype can_transfer_error =
    ErrInsufficientFee int int
  | ErrInsufficientFunds int address

datatype can_transfer_result =
    Returned "can_transfer_error option"
  | NilDereference

definition CanTransfer ::
  "(address \<Rightarrow> int \<Rightarrow> bool) \<Rightarrow> Message \<Rightarrow> int option \<Rightarrow> bool \<Rightarrow> can_transfer_result" where
  "CanTransfer canTransfer msg baseFee isLondon =
     (if \<not> isLondon then
        (if 0 < Value msg \<and> \<not> canTransfer (From msg) (Value msg)
         then Returned (Some (ErrInsufficientFunds (Value msg) (From msg)))
         else Returned None)
      else
        (case baseFee of
           None \<Rightarrow> NilDereference
         | Some fee \<Rightarrow>
             if GasFeeCap msg < fee
             then Returned (Some (ErrInsufficientFee (GasFeeCap msg) fee))
             else if 0 < Value msg \<and> \<not> canTransfer (From msg) (Value msg)
             then Returned (Some (ErrInsufficientFunds (Value msg) (From msg)))
             else Returned None))"

section \<open>precompiles/erc20/erc20.go\<close>

subsection \<open>Method names, the ABI and the gas constants\<close>

text \<open>
  Modelled from the spec: the method-name constants (\<^verbatim>\<open>TransferMethod\<close>, ...,
  \<^verbatim>\<open>auth.AllowanceMethod\<close>) are declared outside src/. The spec lists the methods
  (name, symbol, decimals, total supply, balance-of, allowance, owner; transfer,
  transfer-from, approve, increase/decrease-allowance, mint, burn, burn-from,
  transfer-ownership) and fixes the ABI to the standard token interface, whose function
  names these are; \<^verbatim>\<open>burn0\<close> is the name the ABI gives the second overload of
  \<^verbatim>\<open>burn\<close>. The theorems below use only that the names are pairwise distinct, which
  Go enforces for the cases of one \<^verbatim>\<open>switch\<close>.
\<close>

definition TransferMethod :: string where "TransferMethod = ''transfer''"
definition TransferFromMethod :: string where "TransferFromMethod = ''transferFrom''"
definition ApproveMethod :: string where "ApproveMethod = ''approve''"
definition IncreaseAllowanceMethod :: string where "IncreaseAllowanceMethod = ''increaseAllowance''"
definition DecreaseAllowanceMethod :: string where "DecreaseAllowanceMethod = ''decreaseAllowance''"
definition MintMethod :: string where "MintMethod = ''mint''"
definition BurnMethod :: string where "BurnMethod = ''burn''"
definition Burn0Method :: string where "Burn0Method = ''burn0''"
definition BurnFromMethod :: string where "BurnFromMethod = ''burnFrom''"
definition TransferOwnershipMethod :: string where "TransferOwnershipMethod = ''transferOwnership''"
definition NameMethod :: string where "NameMethod = ''name''"
definition SymbolMethod :: string where "SymbolMethod = ''symbol''"
definition DecimalsMethod :: string where "DecimalsMethod = ''decimals''"
definition TotalSupplyMethod :: string where "TotalSupplyMethod = ''totalSupply''"
definition BalanceOfMethod :: string where "BalanceOfMethod = ''balanceOf''"
definition OwnerMethod :: string where "OwnerMethod = ''owner''"
definition AllowanceMethod :: string where "AllowanceMethod = ''allowance''"

text \<open>
  Of \<^verbatim>\<open>abi.Method\<close> the code reads the name; the selector and the argument types are
  kept so that a method is more than its name. The ABI itself (\<^verbatim>\<open>abi.json\<close>) is not
  under src/: it is a parameter, the table from 4-byte selectors to methods.
\<close>

record abi_method =
  Name :: string
  ID :: "byte list"
  Inputs :: "string list"

type_synonym abi = "byte list \<rightharpoonup> abi_method"

datatype abi_error = ErrDataTooShort nat | ErrNoMethodWithId "byte list"

text \<open>
  Modelled from the spec: \<^verbatim>\<open>p.MethodById\<close>, the ABI library's lookup behind
  "resolve the selector against the ABI table": it fails on fewer than four bytes and on
  a selector that no method of the table has.
\<close>

definition MethodById :: "abi \<Rightarrow> byte list \<Rightarrow> abi_error + abi_method" where
  "MethodById table sigdata =
     (if length sigdata < 4 then Inl (ErrDataTooShort (length sigdata))
      else case table (take 4 sigdata) of
             None \<Rightarrow> Inl (ErrNoMethodWithId (take 4 sigdata))
           | Some m \<Rightarrow> Inr m)"

definition GasTransfer :: gas where "GasTransfer = 3000000"
definition GasApprove :: gas where "GasApprove = 30956"
definition GasIncreaseAllowance :: gas where "GasIncreaseAllowance = 34605"
definition GasDecreaseAllowance :: gas where "GasDecreaseAllowance = 34519"
definition GasName :: gas where "GasName = 3421"
definition GasSymbol :: gas where "GasSymbol = 3464"
definition GasDecimals :: gas where "GasDecimals = 427"
definition GasTotalSupply :: gas where "GasTotalSupply = 2477"
definition GasBalanceOf :: gas where "GasBalanceOf = 2851"
definition GasAllowance :: gas where "GasAllowance = 3246"
definition GasMint :: gas where "GasMint = 50000"
definition GasTransferOwnership :: gas where "GasTransferOwnership = 25000"

text \<open>The costs the \<^verbatim>\<open>const\<close> block records, in its order.\<close>

definition gas_table :: "gas list" where
  "gas_table =
     [GasTransfer, GasApprove, GasIncreaseAllowance, GasDecreaseAllowance, GasName, GasSymbol,
      GasDecimals, GasTotalSupply, GasBalanceOf, GasAllowance, GasMint, GasTransferOwnership]"

subsection \<open>RequiredGas and IsTransaction\<close>

definition RequiredGas :: "abi \<Rightarrow> byte list \<Rightarrow> gas" where
  "RequiredGas table input =
     (if length input < 4 then 0
      else case MethodById table (take 4 input) of
        Inl err \<Rightarrow> 0
      | Inr m \<Rightarrow>
          if Name m = TransferMethod then GasTransfer
          else if Name m = TransferFromMethod then GasTransfer
          else if Name m = ApproveMethod then GasApprove
          else if Name m = IncreaseAllowanceMethod then GasIncreaseAllowance
          else if Name m = DecreaseAllowanceMethod then GasDecreaseAllowance
          else if Name m = MintMethod then GasMint
          else if Name m = BurnMethod then GasTransfer
          else if Name m = BurnFromMethod then GasTransfer
          else if Name m = TransferOwnershipMethod then GasTransferOwnership
          else if Name m = NameMethod then GasName
          else if Name m = SymbolMethod then GasSymbol
          else if Name m = DecimalsMethod then GasDecimals
          else if Name m = TotalSupplyMethod then GasTotalSupply
          else if Name m = BalanceOfMethod then GasBalanceOf
          else if Name m = AllowanceMethod then GasAllowance
          else 0)"

definition IsTransaction :: "abi_method \<Rightarrow> bool" where
  "IsTransaction m =
     (if Name m = TransferMethod \<or> Name m = TransferFromMethod \<or> Name m = ApproveMethod
         \<or> Name m = IncreaseAllowanceMethod \<or> Name m = DecreaseAllowanceMethod
         \<or> Name m = MintMethod \<or> Name m = BurnMethod \<or> Name m = BurnFromMethod
         \<or> Name m = TransferOwnershipMethod
      then True else False)"

subsection \<open>Run and HandleMethod\<close>

text \<open>
  Of \<^verbatim>\<open>vm.Contract\<close> the code reads the caller, the attached value and the input
  and, through \<^verbatim>\<open>UseGas\<close>, updates the remaining gas.
  \<^verbatim>\<open>ctx\<close> and \<^verbatim>\<open>stateDB\<close> are two handles on one mutable ledger-side state: the
  gas meter that \<^verbatim>\<open>ctx.GasMeter().GasConsumed()\<close> reads, and everything else (stores,
  events, journal), which stays abstract.
\<close>

record contract =
  CallerAddress :: address
  contract_value :: int
  Gas :: gas
  Input :: "byte list"

record 's exec_state =
  GasConsumed :: gas
  ledger :: 's

text \<open>
  The errors \<^verbatim>\<open>Run\<close> and \<^verbatim>\<open>HandleMethod\<close> build themselves, and \<open>External\<close> for an
  error handed up from \<^verbatim>\<open>RunSetup\<close>, a handler or \<^verbatim>\<open>AddJournalEntries\<close>. A handler
  returns bytes, returns an error or panics; only an out-of-gas panic of the ledger's gas
  meter (\<^verbatim>\<open>storetypes.ErrorOutOfGas\<close>) is told apart from the others.
\<close>

datatype 'e precompile_error =
    ErrCannotReceiveFunds int
  | ErrOutOfGas
  | ErrUnknownMethod string
  | External 'e

datatype panic_value = ErrorOutOfGas | OtherPanic

datatype ('e, 's) handled =
    Ok "byte list" "'s exec_state"
  | Err "'e precompile_error" "'s exec_state"
  | Panicked panic_value "'s exec_state"

datatype 'e run_return =
    Bytes "byte list"
  | Error "'e precompile_error"
  | Panic panic_value

type_synonym ('a, 'e, 's) handler =
  "'s exec_state \<Rightarrow> contract \<Rightarrow> abi_method \<Rightarrow> 'a list \<Rightarrow> ('e, 's) handled"

text \<open>
  The handlers are methods of \<^verbatim>\<open>Precompile\<close> defined outside src/:
  \<^verbatim>\<open>HandleMethod\<close> takes them as parameters. \<^verbatim>\<open>Burn\<close> and \<^verbatim>\<open>Burn0\<close> are the two
  handlers that tx\_test.go calls directly and \<^verbatim>\<open>HandleMethod\<close> never names.
\<close>

record ('a, 'e, 's) handlers =
  h_Transfer :: "('a, 'e, 's) handler"
  h_TransferFrom :: "('a, 'e, 's) handler"
  h_Approve :: "('a, 'e, 's) handler"
  h_IncreaseAllowance :: "('a, 'e, 's) handler"
  h_DecreaseAllowance :: "('a, 'e, 's) handler"
  h_Mint :: "('a, 'e, 's) handler"
  h_ExecuteBurn :: "('a, 'e, 's) handler"
  h_BurnFrom :: "('a, 'e, 's) handler"
  h_TransferOwnership :: "('a, 'e, 's) handler"
  h_Name :: "('a, 'e, 's) handler"
  h_Symbol :: "('a, 'e, 's) handler"
  h_Decimals :: "('a, 'e, 's) handler"
  h_TotalSupply :: "('a, 'e, 's) handler"
  h_BalanceOf :: "('a, 'e, 's) handler"
  h_Owner :: "('a, 'e, 's) handler"
  h_Allowance :: "('a, 'e, 's) handler"
  h_Burn :: "('a, 'e, 's) handler"
  h_Burn0 :: "('a, 'e, 's) handler"

definition HandleMethod ::
  "('a, 'e, 's) handlers \<Rightarrow> 's exec_state \<Rightarrow> contract \<Rightarrow> abi_method \<Rightarrow> 'a list
     \<Rightarrow> ('e, 's) handled" where
  "HandleMethod p ctx contract m args =
     (if Name m = TransferMethod then h_Transfer p ctx contract m args
      else if Name m = TransferFromMethod then h_TransferFrom p ctx contract m args
      else if Name m = ApproveMethod then h_Approve p ctx contract m args
      else if Name m = IncreaseAllowanceMethod then h_IncreaseAllowance p ctx contract m args
      else if Name m = DecreaseAllowanceMethod then h_DecreaseAllowance p ctx contract m args
      else if Name m = MintMethod then h_Mint p ctx contract m args
      else if Name m = BurnMethod then h_ExecuteBurn p ctx contract m args
      else if Name m = BurnFromMethod then h_BurnFrom p ctx contract m args
      else if Name m = TransferOwnershipMethod then h_TransferOwnership p ctx contract m args
      else if Name m = NameMethod then h_Name p ctx contract m args
      else if Name m = SymbolMethod then h_Symbol p ctx contract m args
      else if Name m = DecimalsMethod then h_Decimals p ctx contract m args
      else if Name m = TotalSupplyMethod then h_TotalSupply p ctx contract m args
      else if Name m = BalanceOfMethod then h_BalanceOf p ctx contract m args
      else if Name m = OwnerMethod then h_Owner p ctx contract m args
      else if Name m = AllowanceMethod then h_Allowance p ctx contract m args
      else Err (ErrUnknownMethod (Name m)) ctx)"

text \<open>
  Modelled from the spec: \<^verbatim>\<open>Contract.UseGas\<close> of the VM package, declared outside
  src/: "if the VM's remaining gas is insufficient to cover this cost, fail with
  out-of-gas ... Otherwise deduct the cost from the VM's gas budget."
\<close>

definition UseGas :: "contract \<Rightarrow> gas \<Rightarrow> bool \<times> contract" where
  "UseGas c cost =
     (if Gas c < cost then (False, c) else (True, c\<lparr>Gas := Gas c - cost\<rparr>))"

text \<open>
  What \<^verbatim>\<open>Run\<close> calls in the embedded \<^verbatim>\<open>cmn.Precompile\<close> is outside src/ and a
  parameter here.
  \<^item> \<open>RunSetup\<close> gets the contract, the read-only flag, \<^verbatim>\<open>p.IsTransaction\<close> and the
    state reached through \<^verbatim>\<open>evm\<close>; it fails, or returns the state behind the context
    and the state database it opened, the snapshot, the method, the initial gas and the
    arguments.
  \<^item> \<open>HandleGasError\<close> is the deferred function. By the comment at the
    \<^verbatim>\<open>defer\<close> it handles the out of gas errors (panics) of the execution, so it is
    applied where the handler panics, with the recovered value, and leaves every other
    exit as it is.
  \<^item> \<open>AddJournalEntries\<close> gets the state and the snapshot.
\<close>

record ('a, 'e, 's, 'snap) precompile =
  RunSetup ::
    "contract \<Rightarrow> bool \<Rightarrow> (abi_method \<Rightarrow> bool) \<Rightarrow> 's exec_state
       \<Rightarrow> ('e \<times> 's exec_state) + ('s exec_state \<times> 'snap \<times> abi_method \<times> gas \<times> 'a list)"
  HandleGasError ::
    "panic_value \<Rightarrow> 's exec_state \<Rightarrow> contract \<Rightarrow> gas
       \<Rightarrow> 'e run_return \<times> contract \<times> 's exec_state"
  AddJournalEntries ::
    "'s exec_state \<Rightarrow> 'snap \<Rightarrow> ('e \<times> 's exec_state) + 's exec_state"
  impl :: "('a, 'e, 's) handlers"

text \<open>
  \<^verbatim>\<open>Run\<close> returns what the Go function returns or panics with, the contract and
  the ledger-side state as the call leaves them.
\<close>

definition Run ::
  "('a, 'e, 's, 'snap) precompile \<Rightarrow> 's exec_state \<Rightarrow> contract \<Rightarrow> bool
     \<Rightarrow> 'e run_return \<times> contract \<times> 's exec_state" where
  "Run p evm contract readOnly =
     (if 0 < contract_value contract
      then (Error (ErrCannotReceiveFunds (contract_value contract)), contract, evm)
      else case RunSetup p contract readOnly IsTransaction evm of
        Inl (err, st) \<Rightarrow> (Error (External err), contract, st)
      | Inr (ctx, snapshot, m, initialGas, args) \<Rightarrow>
          (case HandleMethod (impl p) ctx contract m args of
             Panicked r st \<Rightarrow> HandleGasError p r st contract initialGas
           | Err err st \<Rightarrow> (Error err, contract, st)
           | Ok bz st \<Rightarrow>
               (let cost = GasConsumed st - initialGas in
                case UseGas contract cost of
                  (False, contract') \<Rightarrow> (Error ErrOutOfGas, contract', st)
                | (True, contract') \<Rightarrow>
                    (case AddJournalEntries p st snapshot of
                       Inl (err, st') \<Rightarrow> (Error (External err), contract', st')
                     | Inr st' \<Rightarrow> (Bytes bz, contract', st')))))"

section \<open>The transaction handlers (precompiles/erc20/tx.go)\<close>

text \<open>
  The handlers are not under src/; tx\_test.go calls them. Each definition of this
  section is modelled from the spec's section on the transaction handlers and agrees with
  the cases of tx\_test.go where the two differ.

  \<^verbatim>\<open>args\<close> is a \<^verbatim>\<open>[]interface{}\<close>: an address, a big integer, or something else
  (the tests pass strings). The ledger is what the handlers read and write: the balances
  in the precompile's denomination, the spending grants by grantor and grantee, the
  owner of the token pair and the block time.
\<close>

datatype arg = AddressArg address | BigIntArg int | StringArg string

record SpendingGrant =
  SpendLimit :: int
  Expiration :: "nat option"

record Ledger =
  balances :: "address \<Rightarrow> int"
  grants :: "address \<times> address \<rightharpoonup> SpendingGrant"
  owner :: address
  blockTime :: nat

text \<open>
  Modelled from the spec: the failures of the handlers, as tx\_test.go spells them:
  "invalid number of arguments; expected 1; got: 0", "invalid to address" (from, spender),
  "invalid amount", "coin -1xmpl amount is not positive", "-1xmpl: invalid coins",
  \<^verbatim>\<open>ErrInsufficientAllowance\<close>, "subtracted value cannot be greater than existing
  allowance", \<^verbatim>\<open>ErrTransferAmountExceedsBalance\<close>, \<^verbatim>\<open>ErrMinterIsNotOwner\<close>,
  "sender is not the owner"; and a balance below the amount to burn.
\<close>

datatype erc20_error =
    ErrInvalidNumberOfArgs nat nat
  | ErrInvalidToAddress
  | ErrInvalidFromAddress
  | ErrInvalidSpenderAddress
  | ErrInvalidAmount
  | ErrAmountNotPositive int string
  | ErrInvalidCoins int string
  | ErrInsufficientAllowance
  | ErrSubtractMoreThanAllowance
  | ErrTransferAmountExceedsBalance
  | ErrInsufficientBalance
  | ErrMinterIsNotOwner
  | ErrSenderIsNotOwner

text \<open>
  Modelled from the spec: an insufficient-allowance error is either of the two errors
  that tx\_test.go expects where the allowance does not cover the amount,
  \<^verbatim>\<open>ErrInsufficientAllowance\<close> of TransferFrom and "subtracted value cannot be greater
  than existing allowance" of BurnFrom.
\<close>

definition isInsufficientAllowance :: "erc20_error + bool \<Rightarrow> bool" where
  "isInsufficientAllowance r =
     (r = Inl ErrInsufficientAllowance \<or> r = Inl ErrSubtractMoreThanAllowance)"

text \<open>
  Modelled from the spec: the parsers of address-typed and amount-typed arguments
  ("malformed" is any value of another type).
\<close>

fun parseAddress :: "arg \<Rightarrow> address option" where
  "parseAddress (AddressArg a) = Some a"
| "parseAddress _ = None"

fun parseAmount :: "arg \<Rightarrow> int option" where
  "parseAmount (BigIntArg n) = Some n"
| "parseAmount _ = None"

text \<open>
  Modelled from the spec: the ledger's operations. A grant is valid "only while
  unexpired"; one with no expiration does not expire, one whose expiration lies before
  the block time has. Consuming a grant decrements its limit by the amount.
\<close>

definition activeGrant :: "Ledger \<Rightarrow> address \<Rightarrow> address \<Rightarrow> SpendingGrant option" where
  "activeGrant l grantor grantee =
     (case grants l (grantor, grantee) of
        None \<Rightarrow> None
      | Some g \<Rightarrow>
          (case Expiration g of
             None \<Rightarrow> Some g
           | Some t \<Rightarrow> if t < blockTime l then None else Some g))"

definition consumeGrant :: "Ledger \<Rightarrow> address \<Rightarrow> address \<Rightarrow> SpendingGrant \<Rightarrow> int \<Rightarrow> Ledger" where
  "consumeGrant l grantor grantee g amount =
     l\<lparr>grants := (grants l)((grantor, grantee) \<mapsto> g\<lparr>SpendLimit := SpendLimit g - amount\<rparr>)\<rparr>"

definition subBalance :: "Ledger \<Rightarrow> address \<Rightarrow> int \<Rightarrow> Ledger" where
  "subBalance l a amount = l\<lparr>balances := (balances l)(a := balances l a - amount)\<rparr>"

definition addBalance :: "Ledger \<Rightarrow> address \<Rightarrow> int \<Rightarrow> Ledger" where
  "addBalance l a amount = l\<lparr>balances := (balances l)(a := balances l a + amount)\<rparr>"

definition sendCoins :: "Ledger \<Rightarrow> address \<Rightarrow> address \<Rightarrow> int \<Rightarrow> Ledger" where
  "sendCoins l from to amount = addBalance (subBalance l from amount) to amount"

text \<open>
  Modelled from the spec: Transfer "moves amount of the bound denomination from the
  calling address to to. Fails if to is malformed, amount is non-positive or malformed,
  or the caller's balance is insufficient", in the order of validation the spec fixes:
  argument count, addresses, amounts, business rules.
\<close>

definition Transfer ::
  "string \<Rightarrow> Ledger \<Rightarrow> contract \<Rightarrow> arg list \<Rightarrow> (erc20_error + bool) \<times> Ledger" where
  "Transfer denom l c args =
     (case args of
        [toArg, amountArg] \<Rightarrow>
          (case parseAddress toArg of
             None \<Rightarrow> (Inl ErrInvalidToAddress, l)
           | Some to \<Rightarrow>
               (case parseAmount amountArg of
                  None \<Rightarrow> (Inl ErrInvalidAmount, l)
                | Some amount \<Rightarrow>
                    if amount \<le> 0 then (Inl (ErrAmountNotPositive amount denom), l)
                    else if balances l (CallerAddress c) < amount
                    then (Inl ErrTransferAmountExceedsBalance, l)
                    else (Inr True, sendCoins l (CallerAddress c) to amount)))
      | _ \<Rightarrow> (Inl (ErrInvalidNumberOfArgs 2 (length args)), l))"

text \<open>
  Modelled from the spec: TransferFrom "moves amount from from to to on behalf of the
  caller. If caller == from, no authorization check is required (self-spend). Otherwise
  requires an unexpired spending grant from from to the caller covering at least amount;
  the grant's remaining limit is decremented by amount".
\<close>

definition TransferFrom ::
  "string \<Rightarrow> Ledger \<Rightarrow> contract \<Rightarrow> arg list \<Rightarrow> (erc20_error + bool) \<times> Ledger" where
  "TransferFrom denom l c args =
     (case args of
        [fromArg, toArg, amountArg] \<Rightarrow>
          (case parseAddress fromArg of
             None \<Rightarrow> (Inl ErrInvalidFromAddress, l)
           | Some from \<Rightarrow>
          (case parseAddress toArg of
             None \<Rightarrow> (Inl ErrInvalidToAddress, l)
           | Some to \<Rightarrow>
          (case parseAmount amountArg of
             None \<Rightarrow> (Inl ErrInvalidAmount, l)
           | Some amount \<Rightarrow>
               if amount \<le> 0 then (Inl (ErrAmountNotPositive amount denom), l)
               else if CallerAddress c = from then
                 (if balances l from < amount then (Inl ErrTransferAmountExceedsBalance, l)
                  else (Inr True, sendCoins l from to amount))
               else
                 (case activeGrant l from (CallerAddress c) of
                    None \<Rightarrow> (Inl ErrInsufficientAllowance, l)
                  | Some g \<Rightarrow>
                      if SpendLimit g < amount then (Inl ErrInsufficientAllowance, l)
                      else if balances l from < amount
                      then (Inl ErrTransferAmountExceedsBalance, l)
                      else (Inr True,
                            sendCoins (consumeGrant l from (CallerAddress c) g amount)
                              from to amount)))))
      | _ \<Rightarrow> (Inl (ErrInvalidNumberOfArgs 3 (length args)), l))"

text \<open>
  Modelled from the spec: Mint, "only the TokenPair's registered owner may mint; fails
  with an ownership error otherwise", and that "for any caller that is not the
  TokenPair's current owner, regardless of amount validity". The amount "must be a valid
  positive ledger amount": TestMint expects "-1xmpl: invalid coins" for the amount -1.
\<close>

definition Mint ::
  "string \<Rightarrow> Ledger \<Rightarrow> contract \<Rightarrow> arg list \<Rightarrow> (erc20_error + bool) \<times> Ledger" where
  "Mint denom l c args =
     (case args of
        [toArg, amountArg] \<Rightarrow>
          (case parseAddress toArg of
             None \<Rightarrow> (Inl ErrInvalidToAddress, l)
           | Some to \<Rightarrow>
               (case parseAmount amountArg of
                  None \<Rightarrow> (Inl ErrInvalidAmount, l)
                | Some amount \<Rightarrow>
                    if CallerAddress c \<noteq> owner l then (Inl ErrMinterIsNotOwner, l)
                    else if amount \<le> 0 then (Inl (ErrInvalidCoins amount denom), l)
                    else (Inr True, addBalance l to amount)))
      | _ \<Rightarrow> (Inl (ErrInvalidNumberOfArgs 2 (length args)), l))"

text \<open>
  Modelled from the spec: BurnFrom "requires an authorization grant from the target
  address to the caller ... and decrements that grant". The spec exempts self-spend;
  TestBurnFrom calls it with the caller as the target and no grant and expects
  "subtracted value cannot be greater than existing allowance", so the model follows the
  test and exempts nobody.
\<close>

definition BurnFrom ::
  "string \<Rightarrow> Ledger \<Rightarrow> contract \<Rightarrow> arg list \<Rightarrow> (erc20_error + bool) \<times> Ledger" where
  "BurnFrom denom l c args =
     (case args of
        [fromArg, amountArg] \<Rightarrow>
          (case parseAddress fromArg of
             None \<Rightarrow> (Inl ErrInvalidFromAddress, l)
           | Some from \<Rightarrow>
               (case parseAmount amountArg of
                  None \<Rightarrow> (Inl ErrInvalidAmount, l)
                | Some amount \<Rightarrow>
                    if amount \<le> 0 then (Inl (ErrAmountNotPositive amount denom), l)
                    else
                      (case activeGrant l from (CallerAddress c) of
                         None \<Rightarrow> (Inl ErrSubtractMoreThanAllowance, l)
                       | Some g \<Rightarrow>
                           if SpendLimit g < amount then (Inl ErrSubtractMoreThanAllowance, l)
                           else if balances l from < amount then (Inl ErrInsufficientBalance, l)
                           else (Inr True,
                                 subBalance (consumeGrant l from (CallerAddress c) g amount)
                                   from amount))))
      | _ \<Rightarrow> (Inl (ErrInvalidNumberOfArgs 2 (length args)), l))"

text \<open>
  Modelled from the spec: "Burn acts on the caller's own balance". TestBurn also passes
  it a target address and an amount, with a grant from the target to the caller, and
  expects success: with two arguments the model burns as BurnFrom does.
\<close>

definition Burn ::
  "string \<Rightarrow> Ledger \<Rightarrow> contract \<Rightarrow> arg list \<Rightarrow> (erc20_error + bool) \<times> Ledger" where
  "Burn denom l c args =
     (case args of
        [amountArg] \<Rightarrow>
          (case parseAmount amountArg of
             None \<Rightarrow> (Inl ErrInvalidAmount, l)
           | Some amount \<Rightarrow>
               if amount \<le> 0 then (Inl (ErrAmountNotPositive amount denom), l)
               else if balances l (CallerAddress c) < amount then (Inl ErrInsufficientBalance, l)
               else (Inr True, subBalance l (CallerAddress c) amount))
      | [fromArg, amountArg] \<Rightarrow> BurnFrom denom l c args
      | _ \<Rightarrow> (Inl (ErrInvalidNumberOfArgs 1 (length args)), l))"

text \<open>
  Modelled from the spec: Burn0 "requires the caller to be the TokenPair owner and burns
  from an explicit target address regardless of authorization grants".
\<close>

definition Burn0 ::
  "string \<Rightarrow> Ledger \<Rightarrow> contract \<Rightarrow> arg list \<Rightarrow> (erc20_error + bool) \<times> Ledger" where
  "Burn0 denom l c args =
     (case args of
        [spenderArg, amountArg] \<Rightarrow>
          (case parseAddress spenderArg of
             None \<Rightarrow> (Inl ErrInvalidSpenderAddress, l)
           | Some spender \<Rightarrow>
               (case parseAmount amountArg of
                  None \<Rightarrow> (Inl ErrInvalidAmount, l)
                | Some amount \<Rightarrow>
                    if amount \<le> 0 then (Inl (ErrAmountNotPositive amount denom), l)
                    else if CallerAddress c \<noteq> owner l then (Inl ErrSenderIsNotOwner, l)
                    else if balances l spender < amount then (Inl ErrInsufficientBalance, l)
                    else (Inr True, subBalance l spender amount)))
      | _ \<Rightarrow> (Inl (ErrInvalidNumberOfArgs 2 (length args)), l))"

section \<open>Concrete instances\<close>

text \<open>
  An ABI with the selectors of \<^verbatim>\<open>transfer(address,uint256)\<close>, \<^verbatim>\<open>owner()\<close> and
  \<^verbatim>\<open>burn(address,uint256)\<close> (the overload named \<^verbatim>\<open>burn0\<close>), and a precompile
  whose setup resolves the selector against it, whose handlers all consume 21000 gas
  and return one byte, and whose journal never fails: the inputs at which the theorems
  below are evaluated.
\<close>

definition example_abi :: abi where
  "example_abi =
     [[0xa9, 0x05, 0x9c, 0xbb] \<mapsto>
        \<lparr>Name = TransferMethod, ID = [0xa9, 0x05, 0x9c, 0xbb], Inputs = [''address'', ''uint256'']\<rparr>,
      [0x8d, 0xa5, 0xcb, 0x5b] \<mapsto>
        \<lparr>Name = OwnerMethod, ID = [0x8d, 0xa5, 0xcb, 0x5b], Inputs = []\<rparr>,
      [0x9d, 0xc2, 0x9f, 0xac] \<mapsto>
        \<lparr>Name = Burn0Method, ID = [0x9d, 0xc2, 0x9f, 0xac], Inputs = [''address'', ''uint256'']\<rparr>]"

definition example_handler :: "(byte, abi_error, nat) handler" where
  "example_handler ctx contract m args = Ok [1] (ctx\<lparr>GasConsumed := GasConsumed ctx + 21000\<rparr>)"

definition example_precompile :: "(byte, abi_error, nat, nat) precompile" where
  "example_precompile =
     \<lparr>RunSetup = (\<lambda>contract readOnly isTransaction st.
        case MethodById example_abi (Input contract) of
          Inl err \<Rightarrow> Inl (err, st)
        | Inr m \<Rightarrow> Inr (st, ledger st, m, GasConsumed st, drop 4 (Input contract))),
      HandleGasError = (\<lambda>r st contract initialGas. (Panic r, contract, st)),
      AddJournalEntries = (\<lambda>st snapshot. Inr st),
      impl =
        \<lparr>h_Transfer = example_handler, h_TransferFrom = example_handler,
         h_Approve = example_handler, h_IncreaseAllowance = example_handler,
         h_DecreaseAllowance = example_handler, h_Mint = example_handler,
         h_ExecuteBurn = example_handler, h_BurnFrom = example_handler,
         h_TransferOwnership = example_handler, h_Name = example_handler,
         h_Symbol = example_handler, h_Decimals = example_handler,
         h_TotalSupply = example_handler, h_BalanceOf = example_handler,
         h_Owner = example_handler, h_Allowance = example_handler,
         h_Burn = example_handler, h_Burn0 = example_handler\<rparr>\<rparr>"

definition example_contract :: "int \<Rightarrow> byte list \<Rightarrow> contract" where
  "example_contract v input = \<lparr>CallerAddress = 1, contract_value = v, Gas = 100000, Input = input\<rparr>"

definition example_evm :: "nat exec_state" where
  "example_evm = \<lparr>GasConsumed = 500, ledger = 7\<rparr>"

text \<open>
  The ledger of tx\_test.go: the accounts 1 and 2 hold 10^18 of the denomination, account
  1 owns the token pair, nobody has granted anything.
\<close>

definition example_ledger :: Ledger where
  "example_ledger =
     \<lparr>balances = (\<lambda>a. 0)(1 := 1000000000000000000, 2 := 1000000000000000000),
      grants = Map.empty, owner = 1, blockTime = 100\<rparr>"

definition example_caller :: "address \<Rightarrow> contract" where
  "example_caller a = \<lparr>CallerAddress = a, contract_value = 0, Gas = 100000, Input = []\<rparr>"

section \<open>Properties of the registry of precompiles\<close>

lemma Precompiles_loop_missing:
  "address \<in> set active \<Longrightarrow> precompiles k address = None \<Longrightarrow>
   \<exists>a \<in> set active. precompiles k a = None
      \<and> Precompiles_loop k active acc = Inl (PrecompileNotInitialized a)"
proof (induction active arbitrary: acc)
  case Nil
  then show ?case by simp
next
  case (Cons x xs)
  show ?case
  proof (cases "precompiles k x")
    case None
    then show ?thesis by auto
  next
    case (Some p)
    with Cons.prems have "address \<in> set xs" by auto
    from Cons.IH [OF this Cons.prems(2)] Some show ?thesis by auto
  qed
qed

lemma Precompiles_loop_registered:
  "\<forall>a \<in> set active. precompiles k a \<noteq> None \<Longrightarrow>
   \<exists>m. Precompiles_loop k active acc = Inr m \<and> dom m = dom acc \<union> set active
      \<and> (\<forall>a \<in> set active. m a = precompiles k a) \<and> (\<forall>a. a \<notin> set active \<longrightarrow> m a = acc a)"
proof (induction active arbitrary: acc)
  case Nil
  then show ?case by simp
next
  case (Cons x xs)
  then obtain p where p: "precompiles k x = Some p" by auto
  from Cons.prems have "\<forall>a \<in> set xs. precompiles k a \<noteq> None" by simp
  from Cons.IH [OF this, of "acc(x \<mapsto> p)"]
  obtain m where m: "Precompiles_loop k xs (acc(x \<mapsto> p)) = Inr m"
    "dom m = dom (acc(x \<mapsto> p)) \<union> set xs"
    "\<forall>a \<in> set xs. m a = precompiles k a"
    "\<forall>a. a \<notin> set xs \<longrightarrow> m a = (acc(x \<mapsto> p)) a" by blast
  have "m x = precompiles k x"
  proof (cases "x \<in> set xs")
    case True
    with m(3) show ?thesis by simp
  next
    case False
    with m(4) p show ?thesis by simp
  qed
  with m p show ?case by auto
qed

text \<open>
  C9. For every requested list of active addresses: if some requested address has no
  registered implementation, \<^verbatim>\<open>Keeper.Precompiles\<close> panics, naming such an address (a
  panic, not an error return); if every requested address is registered, it returns a
  map whose keys are exactly the requested addresses, each mapped to its registered
  implementation.
\<close>

theorem Precompiles_panics_or_returns_requested:
  "((\<exists>address \<in> set active. precompiles k address = None) \<longrightarrow>
      (\<exists>address \<in> set active. precompiles k address = None
         \<and> Precompiles k active = Inl (PrecompileNotInitialized address)))
   \<and> ((\<forall>address \<in> set active. precompiles k address \<noteq> None) \<longrightarrow>
      (\<exists>m. Precompiles k active = Inr m \<and> dom m = set active
         \<and> (\<forall>address \<in> set active. m address = precompiles k address)))"
proof (intro conjI impI)
  assume "\<exists>address \<in> set active. precompiles k address = None"
  then obtain a where "a \<in> set active" "precompiles k a = None" by blast
  from Precompiles_loop_missing [OF this, of Map.empty]
  show "\<exists>address \<in> set active. precompiles k address = None
         \<and> Precompiles k active = Inl (PrecompileNotInitialized address)"
    by (simp add: Precompiles_def)
next
  assume "\<forall>address \<in> set active. precompiles k address \<noteq> None"
  from Precompiles_loop_registered [OF this, of Map.empty]
  show "\<exists>m. Precompiles k active = Inr m \<and> dom m = set active
         \<and> (\<forall>address \<in> set active. m address = precompiles k address)"
    by (auto simp: Precompiles_def)
qed

text \<open>
  With the addresses 1 and 2 registered, the request 2, 9, 1 panics at 9; with 1, 2 and
  3 registered, the request 2, 1, 2 returns the map of 1 and 2.
\<close>

theorem Precompiles_witness:
  "precompiles \<lparr>precompiles = [1 \<mapsto> ''ecrecover'', 2 \<mapsto> ''sha256'']\<rparr> 9 = None
   \<and> Precompiles \<lparr>precompiles = [1 \<mapsto> ''ecrecover'', 2 \<mapsto> ''sha256'']\<rparr> [2, 9, 1]
       = Inl (PrecompileNotInitialized 9)
   \<and> precompiles \<lparr>precompiles = [1 \<mapsto> ''ecrecover'', 2 \<mapsto> ''sha256'', 3 \<mapsto> ''ripemd'']\<rparr> 1 \<noteq> None
   \<and> precompiles \<lparr>precompiles = [1 \<mapsto> ''ecrecover'', 2 \<mapsto> ''sha256'', 3 \<mapsto> ''ripemd'']\<rparr> 2 \<noteq> None
   \<and> (\<exists>m. Precompiles \<lparr>precompiles = [1 \<mapsto> ''ecrecover'', 2 \<mapsto> ''sha256'', 3 \<mapsto> ''ripemd'']\<rparr>
              [2, 1, 2] = Inr m
        \<and> dom m = {1, 2} \<and> m 1 = Some ''ecrecover'' \<and> m 2 = Some ''sha256'')"
  using Precompiles_panics_or_returns_requested
          [of "[2, 9, 1]" "\<lparr>precompiles = [1 \<mapsto> ''ecrecover'', 2 \<mapsto> ''sha256'']\<rparr>"]
        Precompiles_panics_or_returns_requested
          [of "[2, 1, 2]" "\<lparr>precompiles = [1 \<mapsto> ''ecrecover'', 2 \<mapsto> ''sha256'', 3 \<mapsto> ''ripemd'']\<rparr>"]
  by (auto simp: Precompiles_def)

section \<open>Properties of the pre-transfer check\<close>

lemma CanTransfer_nil_baseFee:
  "CanTransfer canTransfer msg None True = NilDereference"
  by (simp add: CanTransfer_def)

text \<open>
  C8. For every message, \<^verbatim>\<open>CanTransfer\<close> returns the insufficient-fee error quoting
  the fee cap and the base fee if and only if the London rule is active and the fee
  cap is below the base fee; otherwise it returns the insufficient-funds error naming
  the value and the sender if and only if the value is positive and the transfer
  predicate says the sender cannot cover it; otherwise it returns nil. The base fee is
  a number, or nil where London is not active (there it is not read).
\<close>

theorem CanTransfer_fee_then_funds:
  "CanTransfer canTransfer msg (Some fee) isLondon =
     Returned
       (if isLondon \<and> GasFeeCap msg < fee then Some (ErrInsufficientFee (GasFeeCap msg) fee)
        else if 0 < Value msg \<and> \<not> canTransfer (From msg) (Value msg)
        then Some (ErrInsufficientFunds (Value msg) (From msg))
        else None)
   \<and> CanTransfer canTransfer msg None False =
     Returned
       (if 0 < Value msg \<and> \<not> canTransfer (From msg) (Value msg)
        then Some (ErrInsufficientFunds (Value msg) (From msg))
        else None)"
  by (simp add: CanTransfer_def)

section \<open>Properties of the ERC-20 precompile\<close>

lemmas method_names =
  TransferMethod_def TransferFromMethod_def ApproveMethod_def IncreaseAllowanceMethod_def
  DecreaseAllowanceMethod_def MintMethod_def BurnMethod_def Burn0Method_def BurnFromMethod_def
  TransferOwnershipMethod_def NameMethod_def SymbolMethod_def DecimalsMethod_def
  TotalSupplyMethod_def BalanceOfMethod_def OwnerMethod_def AllowanceMethod_def

lemmas gas_constants =
  GasTransfer_def GasApprove_def GasIncreaseAllowance_def GasDecreaseAllowance_def GasName_def
  GasSymbol_def GasDecimals_def GasTotalSupply_def GasBalanceOf_def GasAllowance_def GasMint_def
  GasTransferOwnership_def

lemma take4: "take 4 (a # b # c # d # xs) = [a, b, c, d]"
  by (simp add: take_Cons')

subsection \<open>IsTransaction\<close>

text \<open>
  C7. \<^verbatim>\<open>IsTransaction\<close> depends on the method's name alone (it gets no arguments, and
  the other fields of the method do not matter): it is true for exactly the nine
  transaction methods transfer, transferFrom, approve, increaseAllowance,
  decreaseAllowance, mint, burn, burnFrom and transferOwnership, and false for every
  query method name, symbol, decimals, totalSupply, balanceOf, allowance and owner.
\<close>

theorem IsTransaction_partition:
  "IsTransaction m =
     (Name m \<in> {TransferMethod, TransferFromMethod, ApproveMethod, IncreaseAllowanceMethod,
                DecreaseAllowanceMethod, MintMethod, BurnMethod, BurnFromMethod,
                TransferOwnershipMethod})
   \<and> (Name m \<in> {NameMethod, SymbolMethod, DecimalsMethod, TotalSupplyMethod, BalanceOfMethod,
                 AllowanceMethod, OwnerMethod} \<longrightarrow> \<not> IsTransaction m)
   \<and> IsTransaction (m\<lparr>ID := selector, Inputs := types\<rparr>) = IsTransaction m"
  by (auto simp: IsTransaction_def method_names)

text \<open>The method \<^verbatim>\<open>owner\<close> is a query and not a transaction.\<close>

theorem IsTransaction_witness:
  "Name \<lparr>Name = OwnerMethod, ID = [0x8d, 0xa5, 0xcb, 0x5b], Inputs = []\<rparr>
     \<in> {NameMethod, SymbolMethod, DecimalsMethod, TotalSupplyMethod, BalanceOfMethod,
         AllowanceMethod, OwnerMethod}
   \<and> \<not> IsTransaction \<lparr>Name = OwnerMethod, ID = [0x8d, 0xa5, 0xcb, 0x5b], Inputs = []\<rparr>"
  using IsTransaction_partition [of "\<lparr>Name = OwnerMethod, ID = [0x8d, 0xa5, 0xcb, 0x5b], Inputs = []\<rparr>"]
  by (simp add: method_names)

subsection \<open>RequiredGas\<close>

lemma RequiredGas_by_name:
  "4 \<le> length input \<Longrightarrow> MethodById table (take 4 input) = Inr m \<Longrightarrow>
   RequiredGas table input =
     (if Name m \<in> {TransferMethod, TransferFromMethod, BurnMethod, BurnFromMethod} then GasTransfer
      else if Name m = ApproveMethod then GasApprove
      else if Name m = IncreaseAllowanceMethod then GasIncreaseAllowance
      else if Name m = DecreaseAllowanceMethod then GasDecreaseAllowance
      else if Name m = MintMethod then GasMint
      else if Name m = TransferOwnershipMethod then GasTransferOwnership
      else if Name m = NameMethod then GasName
      else if Name m = SymbolMethod then GasSymbol
      else if Name m = DecimalsMethod then GasDecimals
      else if Name m = TotalSupplyMethod then GasTotalSupply
      else if Name m = BalanceOfMethod then GasBalanceOf
      else if Name m = AllowanceMethod then GasAllowance
      else 0)"
  by (simp add: RequiredGas_def method_names)

lemma RequiredGas_selector_only:
  "length selector = 4 \<Longrightarrow>
   RequiredGas table (selector @ arguments) = RequiredGas table (selector @ arguments')"
  by (simp add: RequiredGas_def)

text \<open>
  C3, as amended. \<^verbatim>\<open>RequiredGas\<close> returns 0 for a payload shorter than 4 bytes and
  for a payload whose first 4 bytes match no selector of the ABI. For a selector of the
  ABI it returns the fixed cost of the method's name: \<^verbatim>\<open>GasTransfer\<close> for transfer,
  transferFrom, burn and burnFrom, the method's own constant for approve,
  increaseAllowance, decreaseAllowance, mint, transferOwnership, name, symbol, decimals,
  totalSupply, balanceOf and allowance, and 0 for burn0, which no case names. The bytes
  after the selector do not matter.
\<close>

theorem RequiredGas_fixed_costs:
  "(length input < 4 \<longrightarrow> RequiredGas table input = 0)
   \<and> (\<forall>err. MethodById table (take 4 input) = Inl err \<longrightarrow> RequiredGas table input = 0)
   \<and> (4 \<le> length input \<and> MethodById table (take 4 input) = Inr m \<longrightarrow>
        (Name m \<in> {TransferMethod, TransferFromMethod, BurnMethod, BurnFromMethod}
           \<longrightarrow> RequiredGas table input = GasTransfer)
        \<and> (Name m = ApproveMethod \<longrightarrow> RequiredGas table input = GasApprove)
        \<and> (Name m = IncreaseAllowanceMethod \<longrightarrow> RequiredGas table input = GasIncreaseAllowance)
        \<and> (Name m = DecreaseAllowanceMethod \<longrightarrow> RequiredGas table input = GasDecreaseAllowance)
        \<and> (Name m = MintMethod \<longrightarrow> RequiredGas table input = GasMint)
        \<and> (Name m = TransferOwnershipMethod \<longrightarrow> RequiredGas table input = GasTransferOwnership)
        \<and> (Name m = NameMethod \<longrightarrow> RequiredGas table input = GasName)
        \<and> (Name m = SymbolMethod \<longrightarrow> RequiredGas table input = GasSymbol)
        \<and> (Name m = DecimalsMethod \<longrightarrow> RequiredGas table input = GasDecimals)
        \<and> (Name m = TotalSupplyMethod \<longrightarrow> RequiredGas table input = GasTotalSupply)
        \<and> (Name m = BalanceOfMethod \<longrightarrow> RequiredGas table input = GasBalanceOf)
        \<and> (Name m = AllowanceMethod \<longrightarrow> RequiredGas table input = GasAllowance)
        \<and> (Name m = Burn0Method \<longrightarrow> RequiredGas table input = 0))
   \<and> (length selector = 4 \<longrightarrow>
        RequiredGas table (selector @ arguments) = RequiredGas table (selector @ arguments'))"
proof (intro conjI impI allI)
  show "RequiredGas table input = 0" if "length input < 4"
    using that by (simp add: RequiredGas_def)
  show "RequiredGas table input = 0" if "MethodById table (take 4 input) = Inl err" for err
    using that by (simp add: RequiredGas_def)
  show "RequiredGas table (selector @ arguments) = RequiredGas table (selector @ arguments')"
    if "length selector = 4"
    using that by (rule RequiredGas_selector_only)
qed (simp_all add: RequiredGas_by_name method_names)

text \<open>
  The selector of \<^verbatim>\<open>transfer\<close>, followed by one byte, costs \<^verbatim>\<open>GasTransfer\<close>.
\<close>

theorem RequiredGas_witness:
  "4 \<le> length ([0xa9, 0x05, 0x9c, 0xbb, 0x01] :: byte list)
   \<and> MethodById example_abi (take 4 [0xa9, 0x05, 0x9c, 0xbb, 0x01])
       = Inr \<lparr>Name = TransferMethod, ID = [0xa9, 0x05, 0x9c, 0xbb], Inputs = [''address'', ''uint256'']\<rparr>
   \<and> RequiredGas example_abi [0xa9, 0x05, 0x9c, 0xbb, 0x01] = GasTransfer"
proof -
  have len: "4 \<le> length ([0xa9, 0x05, 0x9c, 0xbb, 0x01] :: byte list)"
    by simp
  have sel: "MethodById example_abi (take 4 [0xa9, 0x05, 0x9c, 0xbb, 0x01])
       = Inr \<lparr>Name = TransferMethod, ID = [0xa9, 0x05, 0x9c, 0xbb], Inputs = [''address'', ''uint256'']\<rparr>"
    by (simp add: MethodById_def example_abi_def take4)
  from RequiredGas_fixed_costs [of "[0xa9, 0x05, 0x9c, 0xbb, 0x01]" example_abi
          "\<lparr>Name = TransferMethod, ID = [0xa9, 0x05, 0x9c, 0xbb], Inputs = [''address'', ''uint256'']\<rparr>"]
  have "RequiredGas example_abi [0xa9, 0x05, 0x9c, 0xbb, 0x01] = GasTransfer"
    using len sel by simp
  with len sel show ?thesis by simp
qed

text \<open>
  C3 as stated fails: the selector of \<^verbatim>\<open>burn(address,uint256)\<close> is one the ABI
  recognizes, as the method \<^verbatim>\<open>burn0\<close>, and \<^verbatim>\<open>RequiredGas\<close> returns 0 for it, which
  is none of the costs the gas table records.
\<close>

theorem RequiredGas_burn0_counterexample:
  "MethodById example_abi (take 4 ([0x9d, 0xc2, 0x9f, 0xac] @ replicate 64 0))
     = Inr \<lparr>Name = Burn0Method, ID = [0x9d, 0xc2, 0x9f, 0xac], Inputs = [''address'', ''uint256'']\<rparr>
   \<and> RequiredGas example_abi ([0x9d, 0xc2, 0x9f, 0xac] @ replicate 64 0) = 0
   \<and> RequiredGas example_abi ([0x9d, 0xc2, 0x9f, 0xac] @ replicate 64 0) \<notin> set gas_table"
  by (simp add: RequiredGas_def MethodById_def example_abi_def take4 method_names gas_table_def
        gas_constants)

subsection \<open>Run and HandleMethod\<close>

lemma HandleMethod_Burn0:
  "Name m = Burn0Method \<Longrightarrow>
   HandleMethod hs ctx contract m args = Err (ErrUnknownMethod Burn0Method) ctx"
  by (simp add: HandleMethod_def method_names)

lemma HandleMethod_ignores_Burn0:
  "HandleMethod (hs\<lparr>h_Burn0 := h\<rparr>) ctx contract m args = HandleMethod hs ctx contract m args"
  by (simp add: HandleMethod_def)

lemma Run_ignores_Burn0:
  "Run (p\<lparr>impl := (impl p)\<lparr>h_Burn0 := h\<rparr>\<rparr>) evm contract readOnly
     = Run p evm contract readOnly"
  by (simp add: Run_def HandleMethod_ignores_Burn0 UseGas_def Let_def
           split: sum.split prod.split handled.split)

lemma example_RunSetup:
  "RunSetup example_precompile (example_contract v (a # b # c # d # rest)) readOnly isTx st =
     (case example_abi [a, b, c, d] of
        None \<Rightarrow> Inl (ErrNoMethodWithId [a, b, c, d], st)
      | Some m \<Rightarrow> Inr (st, ledger st, m, GasConsumed st, rest))"
  by (simp add: example_precompile_def example_contract_def MethodById_def take4 split: option.split)

text \<open>
  C10. Where the decoded method is \<^verbatim>\<open>burn0\<close>, \<^verbatim>\<open>HandleMethod\<close> returns the
  unknown-method error, whatever the handlers are, and leaves the state as it is; so
  \<^verbatim>\<open>Run\<close>, once the setup has decoded \<^verbatim>\<open>burn0\<close>, returns that error with the
  contract untouched. The handler \<^verbatim>\<open>Burn0\<close> has no effect on any call of \<^verbatim>\<open>Run\<close>:
  replacing it changes no result.
\<close>

theorem Burn0_falls_through:
  "Name m = Burn0Method \<Longrightarrow>
     HandleMethod hs ctx contract m args = Err (ErrUnknownMethod Burn0Method) ctx
   \<and> (\<not> 0 < contract_value contract
        \<and> RunSetup p contract readOnly IsTransaction evm = Inr (ctx, snapshot, m, initialGas, args)
      \<longrightarrow> Run p evm contract readOnly = (Error (ErrUnknownMethod Burn0Method), contract, ctx))
   \<and> Run (p\<lparr>impl := (impl p)\<lparr>h_Burn0 := h\<rparr>\<rparr>) evm contract readOnly
       = Run p evm contract readOnly"
proof (intro conjI impI)
  assume name: "Name m = Burn0Method"
  show "HandleMethod hs ctx contract m args = Err (ErrUnknownMethod Burn0Method) ctx"
    using name by (rule HandleMethod_Burn0)
  show "Run (p\<lparr>impl := (impl p)\<lparr>h_Burn0 := h\<rparr>\<rparr>) evm contract readOnly
          = Run p evm contract readOnly"
    by (rule Run_ignores_Burn0)
  assume "\<not> 0 < contract_value contract
        \<and> RunSetup p contract readOnly IsTransaction evm = Inr (ctx, snapshot, m, initialGas, args)"
  then show "Run p evm contract readOnly = (Error (ErrUnknownMethod Burn0Method), contract, ctx)"
    using name by (simp add: Run_def HandleMethod_Burn0)
qed

text \<open>The selector of \<^verbatim>\<open>burn(address,uint256)\<close>, run on the instance.\<close>

theorem Burn0_falls_through_witness:
  "Name \<lparr>Name = Burn0Method, ID = [0x9d, 0xc2, 0x9f, 0xac], Inputs = [''address'', ''uint256'']\<rparr>
     = Burn0Method
   \<and> \<not> 0 < contract_value (example_contract 0 [0x9d, 0xc2, 0x9f, 0xac])
   \<and> RunSetup example_precompile (example_contract 0 [0x9d, 0xc2, 0x9f, 0xac]) False IsTransaction
         example_evm
       = Inr (example_evm, 7,
              \<lparr>Name = Burn0Method, ID = [0x9d, 0xc2, 0x9f, 0xac], Inputs = [''address'', ''uint256'']\<rparr>,
              500, [])
   \<and> Run example_precompile example_evm (example_contract 0 [0x9d, 0xc2, 0x9f, 0xac]) False
       = (Error (ErrUnknownMethod Burn0Method), example_contract 0 [0x9d, 0xc2, 0x9f, 0xac],
          example_evm)"
proof -
  let ?c = "example_contract 0 [0x9d, 0xc2, 0x9f, 0xac]"
  let ?m = "\<lparr>Name = Burn0Method, ID = [0x9d, 0xc2, 0x9f, 0xac], Inputs = [''address'', ''uint256'']\<rparr>"
  have name: "Name ?m = Burn0Method"
    by simp
  have v: "\<not> 0 < contract_value ?c"
    by (simp add: example_contract_def)
  have decoded: "RunSetup example_precompile ?c False IsTransaction example_evm
                 = Inr (example_evm, 7, ?m, 500, [])"
    by (simp add: example_RunSetup example_abi_def example_evm_def)
  from Burn0_falls_through
         [OF name, where contract = ?c and p = example_precompile and readOnly = False
            and evm = example_evm and ctx = example_evm and snapshot = 7 and initialGas = 500
            and args = "[]" and hs = "impl example_precompile" and h = example_handler]
  have "Run example_precompile example_evm ?c False
          = (Error (ErrUnknownMethod Burn0Method), ?c, example_evm)"
    using v decoded by simp
  with name v decoded show ?thesis by simp
qed

text \<open>
  C2. Where the contract carries a positive value, \<^verbatim>\<open>Run\<close> returns the
  cannot-receive-funds error quoting the value, whatever the setup, the handlers and
  the journal are: none of them is called, and the contract and the ledger-side state
  are returned as they were.
\<close>

theorem Run_rejects_attached_value:
  "0 < contract_value contract \<Longrightarrow>
   Run p evm contract readOnly
     = (Error (ErrCannotReceiveFunds (contract_value contract)), contract, evm)"
  by (simp add: Run_def)

text \<open>A call carrying the value 5.\<close>

theorem Run_rejects_attached_value_witness:
  "0 < contract_value (example_contract 5 [0xa9, 0x05, 0x9c, 0xbb])
   \<and> Run example_precompile example_evm (example_contract 5 [0xa9, 0x05, 0x9c, 0xbb]) False
       = (Error (ErrCannotReceiveFunds 5), example_contract 5 [0xa9, 0x05, 0x9c, 0xbb], example_evm)"
  using Run_rejects_attached_value
          [of "example_contract 5 [0xa9, 0x05, 0x9c, 0xbb]" example_precompile example_evm False]
  by (simp add: example_contract_def)

text \<open>
  C1. Where no value is attached, the setup succeeds and the handler returns bytes,
  the cost is the gas the ledger's meter has consumed after the handler minus the
  initial gas of the setup (in \<^verbatim>\<open>uint64\<close>). If the contract's gas is below the cost,
  \<^verbatim>\<open>Run\<close> returns the out-of-gas error (no bytes) and the contract keeps its gas.
  Otherwise the cost is deducted from the contract's gas, and only then are the journal
  entries added: the contract has paid whether \<^verbatim>\<open>AddJournalEntries\<close> fails (its error
  is returned) or not (the handler's bytes are returned).
\<close>

theorem Run_charges_consumed_gas:
  assumes "\<not> 0 < contract_value contract"
    and "RunSetup p contract readOnly IsTransaction evm = Inr (ctx, snapshot, m, initialGas, args)"
    and "HandleMethod (impl p) ctx contract m args = Ok bz st"
  shows "Run p evm contract readOnly =
     (if Gas contract < GasConsumed st - initialGas then (Error ErrOutOfGas, contract, st)
      else case AddJournalEntries p st snapshot of
        Inl (err, st') \<Rightarrow>
          (Error (External err),
           contract\<lparr>Gas := Gas contract - (GasConsumed st - initialGas)\<rparr>, st')
      | Inr st' \<Rightarrow>
          (Bytes bz, contract\<lparr>Gas := Gas contract - (GasConsumed st - initialGas)\<rparr>, st'))"
  using assms by (simp add: Run_def UseGas_def Let_def)

text \<open>
  A transfer on the instance: 500 gas consumed at the setup, 21500 after the handler,
  so 21000 of the contract's 100000 are charged.
\<close>

theorem Run_charges_consumed_gas_witness:
  "\<not> 0 < contract_value (example_contract 0 [0xa9, 0x05, 0x9c, 0xbb])
   \<and> RunSetup example_precompile (example_contract 0 [0xa9, 0x05, 0x9c, 0xbb]) False IsTransaction
         example_evm
       = Inr (example_evm, 7,
              \<lparr>Name = TransferMethod, ID = [0xa9, 0x05, 0x9c, 0xbb], Inputs = [''address'', ''uint256'']\<rparr>,
              500, [])
   \<and> HandleMethod (impl example_precompile) example_evm
         (example_contract 0 [0xa9, 0x05, 0x9c, 0xbb])
         \<lparr>Name = TransferMethod, ID = [0xa9, 0x05, 0x9c, 0xbb], Inputs = [''address'', ''uint256'']\<rparr> []
       = Ok [1] \<lparr>GasConsumed = 21500, ledger = 7\<rparr>
   \<and> Run example_precompile example_evm (example_contract 0 [0xa9, 0x05, 0x9c, 0xbb]) False
       = (Bytes [1], (example_contract 0 [0xa9, 0x05, 0x9c, 0xbb])\<lparr>Gas := 79000\<rparr>,
          \<lparr>GasConsumed = 21500, ledger = 7\<rparr>)"
proof -
  let ?c = "example_contract 0 [0xa9, 0x05, 0x9c, 0xbb]"
  let ?m = "\<lparr>Name = TransferMethod, ID = [0xa9, 0x05, 0x9c, 0xbb], Inputs = [''address'', ''uint256'']\<rparr>"
  have v: "\<not> 0 < contract_value ?c"
    by (simp add: example_contract_def)
  have decoded: "RunSetup example_precompile ?c False IsTransaction example_evm
                 = Inr (example_evm, 7, ?m, 500, [])"
    by (simp add: example_RunSetup example_abi_def example_evm_def)
  have handled: "HandleMethod (impl example_precompile) example_evm ?c ?m []
                   = Ok [1] \<lparr>GasConsumed = 21500, ledger = 7\<rparr>"
    by (simp add: HandleMethod_def example_precompile_def example_handler_def example_evm_def)
  from Run_charges_consumed_gas [OF v decoded handled]
  have "Run example_precompile example_evm ?c False
          = (Bytes [1], ?c\<lparr>Gas := 79000\<rparr>, \<lparr>GasConsumed = 21500, ledger = 7\<rparr>)"
    by (simp add: example_precompile_def example_contract_def)
  with v decoded handled show ?thesis by simp
qed

section \<open>Properties of the transaction handlers\<close>

text \<open>
  C4, as amended. For every amount \<open>a \<le> 0\<close> and well-formed addresses, Transfer,
  TransferFrom, Burn (in both of its forms), Burn0 and BurnFrom fail with the error
  "coin \<open>a\<close>\<open>denom\<close> amount is not positive"; Mint fails with "\<open>a\<close>\<open>denom\<close>: invalid
  coins" when the caller owns the token pair and with the ownership error when it does
  not. Each of them returns the ledger as it was: no balance changes.
\<close>

theorem nonpositive_amount_rejected:
  "amount \<le> 0 \<Longrightarrow>
     Transfer denom l c [AddressArg to, BigIntArg amount]
       = (Inl (ErrAmountNotPositive amount denom), l)
   \<and> TransferFrom denom l c [AddressArg src, AddressArg to, BigIntArg amount]
       = (Inl (ErrAmountNotPositive amount denom), l)
   \<and> (CallerAddress c = owner l \<longrightarrow>
        Mint denom l c [AddressArg to, BigIntArg amount] = (Inl (ErrInvalidCoins amount denom), l))
   \<and> (CallerAddress c \<noteq> owner l \<longrightarrow>
        Mint denom l c [AddressArg to, BigIntArg amount] = (Inl ErrMinterIsNotOwner, l))
   \<and> Burn denom l c [BigIntArg amount] = (Inl (ErrAmountNotPositive amount denom), l)
   \<and> Burn denom l c [AddressArg src, BigIntArg amount]
       = (Inl (ErrAmountNotPositive amount denom), l)
   \<and> Burn0 denom l c [AddressArg src, BigIntArg amount]
       = (Inl (ErrAmountNotPositive amount denom), l)
   \<and> BurnFrom denom l c [AddressArg src, BigIntArg amount]
       = (Inl (ErrAmountNotPositive amount denom), l)"
  by (simp add: Transfer_def TransferFrom_def Mint_def Burn_def Burn0_def BurnFrom_def)

text \<open>The amount 0, with the owner of the token pair as the caller.\<close>

theorem nonpositive_amount_rejected_witness:
  "(0::int) \<le> 0
   \<and> CallerAddress (example_caller 1) = owner example_ledger
   \<and> Transfer ''xmpl'' example_ledger (example_caller 1) [AddressArg 3, BigIntArg 0]
       = (Inl (ErrAmountNotPositive 0 ''xmpl''), example_ledger)
   \<and> Mint ''xmpl'' example_ledger (example_caller 1) [AddressArg 3, BigIntArg 0]
       = (Inl (ErrInvalidCoins 0 ''xmpl''), example_ledger)
   \<and> BurnFrom ''xmpl'' example_ledger (example_caller 1) [AddressArg 2, BigIntArg 0]
       = (Inl (ErrAmountNotPositive 0 ''xmpl''), example_ledger)"
proof -
  have a: "(0::int) \<le> 0" by simp
  have o: "CallerAddress (example_caller 1) = owner example_ledger"
    by (simp add: example_caller_def example_ledger_def)
  from nonpositive_amount_rejected
         [OF a, where denom = "''xmpl''" and l = example_ledger and c = "example_caller 1"
            and to = 3 and src = 2]
  show ?thesis using a o by simp
qed

text \<open>
  C4 as stated fails for Mint: with the amount -1 and the owner as the caller (the
  case "fail - negative amount" of TestMint) the error is "-1xmpl: invalid coins", not
  an "amount is not positive" error.
\<close>

theorem Mint_negative_amount_counterexample:
  "CallerAddress (example_caller 1) = owner example_ledger
   \<and> Mint ''xmpl'' example_ledger (example_caller 1) [AddressArg 3, BigIntArg (- 1)]
       = (Inl (ErrInvalidCoins (- 1) ''xmpl''), example_ledger)
   \<and> fst (Mint ''xmpl'' example_ledger (example_caller 1) [AddressArg 3, BigIntArg (- 1)])
       \<noteq> Inl (ErrAmountNotPositive (- 1) ''xmpl'')"
  by (simp add: Mint_def example_caller_def example_ledger_def)

text \<open>
  C5, as amended. For every TransferFrom or BurnFrom call with a positive amount where
  the caller is not the source account and either no grant exists from the source to
  the caller or the grant's limit is below the amount, the handler fails with an
  insufficient-allowance error (\<^verbatim>\<open>ErrInsufficientAllowance\<close> for TransferFrom,
  "subtracted value cannot be greater than existing allowance" for BurnFrom) and
  returns the ledger as it was: no balance changes.
\<close>

theorem insufficient_allowance_rejected:
  "0 < amount \<Longrightarrow> CallerAddress c \<noteq> src \<Longrightarrow>
   (case grants l (src, CallerAddress c) of None \<Rightarrow> True | Some g \<Rightarrow> SpendLimit g < amount) \<Longrightarrow>
     TransferFrom denom l c [AddressArg src, AddressArg to, BigIntArg amount]
       = (Inl ErrInsufficientAllowance, l)
   \<and> BurnFrom denom l c [AddressArg src, BigIntArg amount]
       = (Inl ErrSubtractMoreThanAllowance, l)
   \<and> isInsufficientAllowance
        (fst (TransferFrom denom l c [AddressArg src, AddressArg to, BigIntArg amount]))
   \<and> isInsufficientAllowance (fst (BurnFrom denom l c [AddressArg src, BigIntArg amount]))"
  by (auto simp: TransferFrom_def BurnFrom_def activeGrant_def isInsufficientAllowance_def
           split: option.splits)

text \<open>Account 2 spends 100 from account 1, which has granted nothing.\<close>

theorem insufficient_allowance_rejected_witness:
  "(0::int) < 100 \<and> CallerAddress (example_caller 2) \<noteq> 1
   \<and> grants example_ledger (1, CallerAddress (example_caller 2)) = None
   \<and> TransferFrom ''xmpl'' example_ledger (example_caller 2)
        [AddressArg 1, AddressArg 3, BigIntArg 100]
       = (Inl ErrInsufficientAllowance, example_ledger)
   \<and> BurnFrom ''xmpl'' example_ledger (example_caller 2) [AddressArg 1, BigIntArg 100]
       = (Inl ErrSubtractMoreThanAllowance, example_ledger)"
proof -
  have a: "(0::int) < 100" by simp
  have c: "CallerAddress (example_caller 2) \<noteq> 1"
    by (simp add: example_caller_def)
  have g: "grants example_ledger (1, CallerAddress (example_caller 2)) = None"
    by (simp add: example_ledger_def)
  then have g': "case grants example_ledger (1, CallerAddress (example_caller 2)) of
                   None \<Rightarrow> True | Some g \<Rightarrow> SpendLimit g < 100"
    by simp
  from insufficient_allowance_rejected [OF a c g', of "''xmpl''" 3]
  show ?thesis using a c g by simp
qed

text \<open>
  C5 as stated fails where the amount is not positive: account 2 calls TransferFrom
  for -1 from account 1, which has granted nothing (the case "fail - negative amount"
  of TestTransferFrom), and the error is "coin -1xmpl amount is not positive", not an
  insufficient-allowance error.
\<close>

theorem TransferFrom_negative_amount_counterexample:
  "CallerAddress (example_caller 2) \<noteq> 1
   \<and> grants example_ledger (1, CallerAddress (example_caller 2)) = None
   \<and> TransferFrom ''xmpl'' example_ledger (example_caller 2)
        [AddressArg 1, AddressArg 3, BigIntArg (- 1)]
       = (Inl (ErrAmountNotPositive (- 1) ''xmpl''), example_ledger)
   \<and> \<not> isInsufficientAllowance
          (fst (TransferFrom ''xmpl'' example_ledger (example_caller 2)
                  [AddressArg 1, AddressArg 3, BigIntArg (- 1)]))"
  by (simp add: TransferFrom_def example_caller_def example_ledger_def
        isInsufficientAllowance_def)

text \<open>
  C6. For every TransferFrom call in which the caller is the source account, with a
  positive amount up to the caller's balance, the transfer succeeds; the grants are
  neither needed nor read (the result is the same under any grants, which stay as they
  are); and the recipient is credited exactly the amount, on top of its balance after
  the source is debited: its balance grows by exactly the amount where it is not the
  source itself.
\<close>

theorem TransferFrom_self_spend:
  "CallerAddress c = src \<Longrightarrow> 0 < amount \<Longrightarrow> amount \<le> balances l src \<Longrightarrow>
     TransferFrom denom l c [AddressArg src, AddressArg to, BigIntArg amount]
       = (Inr True, sendCoins l src to amount)
   \<and> TransferFrom denom (l\<lparr>grants := gs\<rparr>) c [AddressArg src, AddressArg to, BigIntArg amount]
       = (Inr True, (sendCoins l src to amount)\<lparr>grants := gs\<rparr>)
   \<and> grants (sendCoins l src to amount) = grants l
   \<and> balances (sendCoins l src to amount) to
       = balances (subBalance l src amount) to + amount
   \<and> balances (sendCoins l src to amount) to
       = (if to = src then balances l to else balances l to + amount)"
  by (simp add: TransferFrom_def sendCoins_def addBalance_def subBalance_def)

text \<open>Account 2 sends 100 of its own coins to account 3, which held none.\<close>

theorem TransferFrom_self_spend_witness:
  "CallerAddress (example_caller 2) = 2 \<and> (0::int) < 100 \<and> 100 \<le> balances example_ledger 2
   \<and> fst (TransferFrom ''xmpl'' example_ledger (example_caller 2)
             [AddressArg 2, AddressArg 3, BigIntArg 100]) = Inr True
   \<and> balances (snd (TransferFrom ''xmpl'' example_ledger (example_caller 2)
                       [AddressArg 2, AddressArg 3, BigIntArg 100])) 3 = 100"
proof -
  have c: "CallerAddress (example_caller 2) = 2"
    by (simp add: example_caller_def)
  have a: "(0::int) < 100" by simp
  have b: "100 \<le> balances example_ledger 2"
    by (simp add: example_ledger_def)
  from TransferFrom_self_spend
         [OF c a b, where denom = "''xmpl''" and to = 3 and gs = "grants example_ledger"]
  show ?thesis using c a b
    by (simp add: example_ledger_def sendCoins_def addBalance_def subBalance_def)
qed

end
